theory Spec2Isabelle
  imports Main "HOL-Library.Multiset" "HOL-Library.Product_Lexorder"
begin

section \<open>Data model\<close>

text \<open>
  The repository is a browser client: \<^verbatim>\<open>services/fileService.ts\<close> (the file store
  adapter), the documents page that drives it, and the login page. Every durable effect
  goes through the hosted platform's client SDK. The SDK is not part of the repository, so
  it is modelled here as an explicit state, \<open>world\<close>, that the client functions thread
  through their calls, following the SDK's documented contract.

  Records carry a prefix per type, since the source reuses the field names
  \<^verbatim>\<open>name\<close>, \<^verbatim>\<open>size\<close>, \<^verbatim>\<open>type\<close> in three object shapes: \<open>file_\<close> for the browser's
  \<^verbatim>\<open>File\<close>, \<open>fd_\<close> for the literal \<^verbatim>\<open>fileData\<close> written to the database, and \<open>uf_\<close>
  for the \<^verbatim>\<open>UserFile\<close> objects handed to callers.
\<close>

text \<open>An error thrown by an SDK call: the source reads its \<^verbatim>\<open>code\<close> and \<^verbatim>\<open>message\<close>.\<close>

datatype FirebaseError = FirebaseError (err_code: string) (err_message: string)

text \<open>The browser's \<^verbatim>\<open>File\<close>: the three attributes the source reads, and the content.\<close>

record File =
  file_name :: string
  file_size :: nat
  file_type :: string
  file_bytes :: "nat list"

text \<open>
  \<^verbatim>\<open>new Date().toISOString()\<close>: the ISO-8601 text of an instant of the client's clock.
  The rendering is injective and no function of the repository looks inside it, so it is
  kept symbolic.
\<close>

datatype iso_string = ISOString nat

text \<open>The object literal \<^verbatim>\<open>fileData\<close> of \<^verbatim>\<open>uploadUserFile\<close>, as stored in the database.\<close>

record fileData =
  fd_name :: string
  fd_size :: nat
  fd_type :: string
  fd_downloadUrl :: string
  fd_storagePath :: string
  fd_uploadDate :: iso_string
  fd_createdAt :: nat

text \<open>
  A document of the collection \<^verbatim>\<open>users/{uid}/files\<close>: the owning user of the path, the
  identifier the database assigned, and the data. Identifiers are opaque to the client;
  they are numbered here.
\<close>

record file_doc =
  doc_uid :: string
  doc_id :: nat
  doc_data :: fileData

text \<open>
  The objects handed to callers. A JavaScript object may or may not carry the property
  \<^verbatim>\<open>createdAt\<close>: \<open>None\<close> is an object without it.
\<close>

record UserFile =
  uf_id :: nat
  uf_name :: string
  uf_size :: nat
  uf_type :: string
  uf_downloadUrl :: string
  uf_storagePath :: string
  uf_uploadDate :: iso_string
  uf_createdAt :: "nat option"

text \<open>\<^verbatim>\<open>ApiResponse<T>\<close>: \<^verbatim>\<open>data\<close> and \<^verbatim>\<open>message\<close> are optional properties.\<close>

record 'a ApiResponse =
  success :: bool
  data :: "'a option"
  message :: "string option"

text \<open>The identity provider's account, and the profile document \<^verbatim>\<open>users/{uid}\<close>.\<close>

record identity =
  id_uid :: string
  id_email :: string
  id_password :: string
  id_displayName :: "string option"
  id_photoURL :: "string option"

record UserProfile =
  up_name :: string
  up_email :: string
  up_photoFileName :: string

text \<open>The calls that leave the client, each with the arguments that address it.\<close>

datatype call =
    UploadBytes string
  | GetDownloadURL string
  | AddDoc string
  | DeleteObject string
  | DeleteDoc string nat
  | GetDocs string
  | SignInWithEmailAndPassword string
  | CreateUserWithEmailAndPassword string
  | UpdateProfile string
  | SetDoc string

text \<open>
  The state outside the client functions:
  \<^item> \<open>client_clock\<close>, the browser's clock in milliseconds, read by \<^verbatim>\<open>new Date()\<close> and
    by \<^verbatim>\<open>Timestamp.now()\<close> (the SDK builds that value locally from \<^verbatim>\<open>Date.now()\<close>);
  \<^item> \<open>server_clock\<close>, the platform's clock, which no synchronous client call can read;
  \<^item> \<open>objects\<close>, the object store, by path;
  \<^item> \<open>file_docs\<close>, the documents of all \<^verbatim>\<open>users/{uid}/files\<close> collections, in
    insertion order, and \<open>next_id\<close>, the next identifier the database assigns;
  \<^item> \<open>identities\<close>, \<open>current_user\<close> and \<open>next_uid\<close>, the identity provider;
  \<^item> \<open>profiles\<close>, the documents \<^verbatim>\<open>users/{uid}\<close>;
  \<^item> \<open>faults\<close>, what the network and the platform will answer to the coming calls: the
    \<open>n\<close>-th entry is the error the \<open>n\<close>-th call from now is rejected with, or \<open>None\<close>
    when that call goes through; past the end of the script every call goes through;
  \<^item> \<open>trace\<close>, the calls attempted so far, oldest first.
\<close>

record world =
  client_clock :: nat
  server_clock :: nat
  objects :: "string \<rightharpoonup> File"
  file_docs :: "file_doc list"
  next_id :: nat
  identities :: "identity list"
  current_user :: "identity option"
  next_uid :: nat
  profiles :: "string \<rightharpoonup> UserProfile"
  faults :: "FirebaseError option list"
  trace :: "call list"

section \<open>The SDK calls\<close>

text \<open>Issuing a call records it and consumes the head of the fault script.\<close>

definition sdk_call :: "call \<Rightarrow> world \<Rightarrow> FirebaseError option \<times> world" where
  "sdk_call c w =
     (case faults w of
        [] \<Rightarrow> (None, w\<lparr>trace := trace w @ [c]\<rparr>)
      | f # fs \<Rightarrow> (f, w\<lparr>faults := fs, trace := trace w @ [c]\<rparr>))"

definition object_not_found :: "string \<Rightarrow> FirebaseError" where
  "object_not_found p =
     FirebaseError ''storage/object-not-found''
       (''Firebase Storage: Object '' @ p @ '' does not exist. (storage/object-not-found)'')"

text \<open>\<^verbatim>\<open>uploadBytes(ref, file)\<close> writes the object at the path, replacing what was there.\<close>

definition uploadBytes :: "string \<Rightarrow> File \<Rightarrow> world \<Rightarrow> (FirebaseError + string) \<times> world" where
  "uploadBytes p file w =
     (case sdk_call (UploadBytes p) w of
        (Some e, w') \<Rightarrow> (Inl e, w')
      | (None, w') \<Rightarrow> (Inr p, w'\<lparr>objects := (objects w')(p \<mapsto> file)\<rparr>))"

text \<open>
  \<^verbatim>\<open>getDownloadURL(ref)\<close>: the URL the store issues for an existing object. The access
  token of the real URL is left out; the client never looks inside the URL.
\<close>

definition download_url :: "string \<Rightarrow> string" where
  "download_url p =
     ''https://firebasestorage.googleapis.com/v0/b/mushroom1-1db55.firebasestorage.app/o/''
       @ p @ ''?alt=media''"

definition getDownloadURL :: "string \<Rightarrow> world \<Rightarrow> (FirebaseError + string) \<times> world" where
  "getDownloadURL p w =
     (case sdk_call (GetDownloadURL p) w of
        (Some e, w') \<Rightarrow> (Inl e, w')
      | (None, w') \<Rightarrow>
          (case objects w' p of
             None \<Rightarrow> (Inl (object_not_found p), w')
           | Some _ \<Rightarrow> (Inr (download_url p), w')))"

text \<open>\<^verbatim>\<open>deleteObject(ref)\<close> removes the object; a missing object is an error.\<close>

definition deleteObject :: "string \<Rightarrow> world \<Rightarrow> (FirebaseError + unit) \<times> world" where
  "deleteObject p w =
     (case sdk_call (DeleteObject p) w of
        (Some e, w') \<Rightarrow> (Inl e, w')
      | (None, w') \<Rightarrow>
          (case objects w' p of
             None \<Rightarrow> (Inl (object_not_found p), w')
           | Some _ \<Rightarrow> (Inr (), w'\<lparr>objects := (objects w')(p := None)\<rparr>)))"

text \<open>
  \<^verbatim>\<open>addDoc(collection(db, "users", uid, "files"), data)\<close> stores the data under an
  identifier of the database's choosing and returns it.
\<close>

definition addDoc :: "string \<Rightarrow> fileData \<Rightarrow> world \<Rightarrow> (FirebaseError + nat) \<times> world" where
  "addDoc uid fd w =
     (case sdk_call (AddDoc uid) w of
        (Some e, w') \<Rightarrow> (Inl e, w')
      | (None, w') \<Rightarrow>
          (Inr (next_id w'),
           w'\<lparr>file_docs := file_docs w' @ [\<lparr>doc_uid = uid, doc_id = next_id w', doc_data = fd\<rparr>],
              next_id := Suc (next_id w')\<rparr>))"

text \<open>
  \<^verbatim>\<open>deleteDoc(doc(db, "users", uid, "files", fileId))\<close> removes the document at that
  path; deleting a document that does not exist is not an error.
\<close>

definition deleteDoc :: "string \<Rightarrow> nat \<Rightarrow> world \<Rightarrow> (FirebaseError + unit) \<times> world" where
  "deleteDoc uid fileId w =
     (case sdk_call (DeleteDoc uid fileId) w of
        (Some e, w') \<Rightarrow> (Inl e, w')
      | (None, w') \<Rightarrow>
          (Inr (),
           w'\<lparr>file_docs := filter (\<lambda>d. \<not> (doc_uid d = uid \<and> doc_id d = fileId)) (file_docs w')\<rparr>))"

text \<open>
  \<^verbatim>\<open>getDocs(query(collection(db, "users", uid, "files"), orderBy("createdAt", "desc")))\<close>:
  the documents of the user's collection, by \<^verbatim>\<open>createdAt\<close> descending; the database
  breaks ties by document identifier, in the same direction.
\<close>

definition order_key :: "file_doc \<Rightarrow> nat \<times> nat" where
  "order_key d = (fd_createdAt (doc_data d), doc_id d)"

definition collection :: "string \<Rightarrow> world \<Rightarrow> file_doc list" where
  "collection uid w = filter (\<lambda>d. doc_uid d = uid) (file_docs w)"

definition orderBy_createdAt_desc :: "file_doc list \<Rightarrow> file_doc list" where
  "orderBy_createdAt_desc ds = rev (sort_key order_key ds)"

definition getDocs :: "string \<Rightarrow> world \<Rightarrow> (FirebaseError + file_doc list) \<times> world" where
  "getDocs uid w =
     (case sdk_call (GetDocs uid) w of
        (Some e, w') \<Rightarrow> (Inl e, w')
      | (None, w') \<Rightarrow> (Inr (orderBy_createdAt_desc (collection uid w')), w'))"

section \<open>The file store adapter: \<^verbatim>\<open>services/fileService.ts\<close>\<close>

text \<open>The \<^verbatim>\<open>catch\<close> block shared by the three functions.\<close>

definition failure :: "FirebaseError \<Rightarrow> 'a ApiResponse" where
  "failure e = \<lparr>success = False, data = None, message = Some (err_message e)\<rparr>"

definition storage_path :: "string \<Rightarrow> File \<Rightarrow> string" where
  "storage_path uid file = ''user_uploads/'' @ uid @ ''/'' @ file_name file"

text \<open>
  The literal \<^verbatim>\<open>fileData\<close>, built on the client before the metadata write: both
  timestamps are read from the client's clock.
\<close>

definition make_fileData :: "File \<Rightarrow> string \<Rightarrow> string \<Rightarrow> world \<Rightarrow> fileData" where
  "make_fileData file storagePath downloadUrl w =
     \<lparr>fd_name = file_name file,
      fd_size = file_size file,
      fd_type = file_type file,
      fd_downloadUrl = downloadUrl,
      fd_storagePath = storagePath,
      fd_uploadDate = ISOString (client_clock w),
      fd_createdAt = client_clock w\<rparr>"

text \<open>The returned object \<^verbatim>\<open>{ id: docRef.id, ...fileData }\<close>: every property of the literal.\<close>

definition with_id :: "nat \<Rightarrow> fileData \<Rightarrow> UserFile" where
  "with_id docRef_id fd =
     \<lparr>uf_id = docRef_id,
      uf_name = fd_name fd,
      uf_size = fd_size fd,
      uf_type = fd_type fd,
      uf_downloadUrl = fd_downloadUrl fd,
      uf_storagePath = fd_storagePath fd,
      uf_uploadDate = fd_uploadDate fd,
      uf_createdAt = Some (fd_createdAt fd)\<rparr>"

definition uploadUserFile :: "File \<Rightarrow> string \<Rightarrow> world \<Rightarrow> UserFile ApiResponse \<times> world" where
  "uploadUserFile file uid w =
     (let storagePath = storage_path uid file in
      case uploadBytes storagePath file w of
        (Inl e, w1) \<Rightarrow> (failure e, w1)
      | (Inr snapshot_ref, w1) \<Rightarrow>
          (case getDownloadURL snapshot_ref w1 of
             (Inl e, w2) \<Rightarrow> (failure e, w2)
           | (Inr downloadUrl, w2) \<Rightarrow>
               (let fileData = make_fileData file storagePath downloadUrl w2
                in case addDoc uid fileData w2 of
                     (Inl e, w3) \<Rightarrow> (failure e, w3)
                   | (Inr docRef_id, w3) \<Rightarrow>
                       (\<lparr>success = True, data = Some (with_id docRef_id fileData),
                         message = None\<rparr>, w3))))"

definition deleteUserFile :: "nat \<Rightarrow> string \<Rightarrow> string \<Rightarrow> world \<Rightarrow> bool ApiResponse \<times> world" where
  "deleteUserFile fileId storagePath uid w =
     (case deleteObject storagePath w of
        (Inl e, w1) \<Rightarrow> (failure e, w1)
      | (Inr _, w1) \<Rightarrow>
          (case deleteDoc uid fileId w1 of
             (Inl e, w2) \<Rightarrow> (failure e, w2)
           | (Inr _, w2) \<Rightarrow>
               (\<lparr>success = True, data = None, message = Some ''File deleted successfully''\<rparr>, w2)))"

text \<open>The object pushed for each document of the snapshot.\<close>

definition to_UserFile :: "file_doc \<Rightarrow> UserFile" where
  "to_UserFile d =
     \<lparr>uf_id = doc_id d,
      uf_name = fd_name (doc_data d),
      uf_size = fd_size (doc_data d),
      uf_type = fd_type (doc_data d),
      uf_downloadUrl = fd_downloadUrl (doc_data d),
      uf_storagePath = fd_storagePath (doc_data d),
      uf_uploadDate = fd_uploadDate (doc_data d),
      uf_createdAt = None\<rparr>"

definition getUserFiles :: "string \<Rightarrow> world \<Rightarrow> UserFile list ApiResponse \<times> world" where
  "getUserFiles uid w =
     (case getDocs uid w of
        (Inl e, w1) \<Rightarrow> (failure e, w1)
      | (Inr querySnapshot, w1) \<Rightarrow>
          (\<lparr>success = True, data = Some (map to_UserFile querySnapshot), message = None\<rparr>, w1))"

section \<open>The documents page\<close>

text \<open>
  The component's state: the four \<^verbatim>\<open>useState\<close> cells, \<^verbatim>\<open>auth.currentUser\<close> as the
  component read it when it rendered, and the file input behind \<^verbatim>\<open>fileInputRef\<close>
  (\<open>None\<close> while the ref is not attached, otherwise the input's value).
\<close>

record DocumentsPage =
  files :: "UserFile list"
  loading :: bool
  uploading :: bool
  error :: "string option"
  currentUser :: "identity option"
  fileInput :: "string option"

text \<open>\<^verbatim>\<open>res.message || d\<close>: a missing or empty message gives the default.\<close>

definition message_or :: "string option \<Rightarrow> string \<Rightarrow> string" where
  "message_or m d = (case m of None \<Rightarrow> d | Some s \<Rightarrow> if s = [] then d else s)"

definition fetchFiles :: "DocumentsPage \<Rightarrow> world \<Rightarrow> DocumentsPage \<times> world" where
  "fetchFiles v w =
     (case currentUser v of
        None \<Rightarrow> (v, w)
      | Some user \<Rightarrow>
          (let v1 = v\<lparr>loading := True\<rparr>;
               (res, w1) = getUserFiles (id_uid user) w;
               v2 = (case (success res, data res) of
                       (True, Some fs) \<Rightarrow> v1\<lparr>files := fs\<rparr>
                     | _ \<Rightarrow> v1\<lparr>error := Some (message_or (message res) ''Failed to load files'')\<rparr>)
           in (v2\<lparr>loading := False\<rparr>, w1)))"

text \<open>
  The argument is \<^verbatim>\<open>e.target.files\<close>: \<open>None\<close> for \<^verbatim>\<open>null\<close>, otherwise the selected
  files in order.
\<close>

definition handleFileUpload ::
  "File list option \<Rightarrow> DocumentsPage \<Rightarrow> world \<Rightarrow> DocumentsPage \<times> world" where
  "handleFileUpload target_files v w =
     (case (target_files, currentUser v) of
        (Some (file # _), Some user) \<Rightarrow>
          (let v1 = v\<lparr>uploading := True, error := None\<rparr>;
               (res, w1) = uploadUserFile file (id_uid user) w;
               (v2, w2) = (if success res then fetchFiles v1 w1
                           else (v1\<lparr>error := Some (message_or (message res) ''Upload failed'')\<rparr>, w1));
               v3 = v2\<lparr>uploading := False\<rparr>
           in (case fileInput v3 of None \<Rightarrow> v3 | Some _ \<Rightarrow> v3\<lparr>fileInput := Some []\<rparr>, w2))
      | _ \<Rightarrow> (v, w))"

section \<open>The login page\<close>

text \<open>
  The identity provider. Sign-in answers \<^verbatim>\<open>auth/invalid-credential\<close> for an unknown
  email and for a wrong password, and makes the account the current user otherwise.
  Registration answers \<^verbatim>\<open>auth/email-already-in-use\<close> for a taken email, and otherwise
  creates the account under a new user id and signs it in. Any other rejection (the older
  \<^verbatim>\<open>auth/user-not-found\<close> and \<^verbatim>\<open>auth/wrong-password\<close>, a weak password, the network) is
  an entry of the fault script.
\<close>

fun show_nat :: "nat \<Rightarrow> string" where
  "show_nat n =
     (if n < 10 then [char_of (48 + n)]
      else show_nat (n div 10) @ [char_of (48 + n mod 10)])"

definition auth_error :: "string \<Rightarrow> FirebaseError" where
  "auth_error c = FirebaseError c (''Firebase: Error ('' @ c @ '').'')"

definition signInWithEmailAndPassword ::
  "string \<Rightarrow> string \<Rightarrow> world \<Rightarrow> (FirebaseError + identity) \<times> world" where
  "signInWithEmailAndPassword em pw w =
     (case sdk_call (SignInWithEmailAndPassword em) w of
        (Some e, w') \<Rightarrow> (Inl e, w')
      | (None, w') \<Rightarrow>
          (case find (\<lambda>a. id_email a = em) (identities w') of
             None \<Rightarrow> (Inl (auth_error ''auth/invalid-credential''), w')
           | Some a \<Rightarrow>
               if id_password a = pw then (Inr a, w'\<lparr>current_user := Some a\<rparr>)
               else (Inl (auth_error ''auth/invalid-credential''), w')))"

definition createUserWithEmailAndPassword ::
  "string \<Rightarrow> string \<Rightarrow> world \<Rightarrow> (FirebaseError + identity) \<times> world" where
  "createUserWithEmailAndPassword em pw w =
     (case sdk_call (CreateUserWithEmailAndPassword em) w of
        (Some e, w') \<Rightarrow> (Inl e, w')
      | (None, w') \<Rightarrow>
          (case find (\<lambda>a. id_email a = em) (identities w') of
             Some _ \<Rightarrow> (Inl (auth_error ''auth/email-already-in-use''), w')
           | None \<Rightarrow>
               (let a = \<lparr>id_uid = ''uid'' @ show_nat (next_uid w'), id_email = em,
                         id_password = pw, id_displayName = None, id_photoURL = None\<rparr>
                in (Inr a, w'\<lparr>identities := identities w' @ [a], current_user := Some a,
                               next_uid := Suc (next_uid w')\<rparr>))))"

definition updateProfile ::
  "identity \<Rightarrow> string \<Rightarrow> string \<Rightarrow> world \<Rightarrow> (FirebaseError + unit) \<times> world" where
  "updateProfile user dn photo w =
     (case sdk_call (UpdateProfile (id_uid user)) w of
        (Some e, w') \<Rightarrow> (Inl e, w')
      | (None, w') \<Rightarrow>
          (let upd = (\<lambda>a. if id_uid a = id_uid user
                            then a\<lparr>id_displayName := Some dn, id_photoURL := Some photo\<rparr> else a)
           in (Inr (), w'\<lparr>identities := map upd (identities w'),
                           current_user := map_option upd (current_user w')\<rparr>)))"

definition setDoc :: "string \<Rightarrow> UserProfile \<Rightarrow> world \<Rightarrow> (FirebaseError + unit) \<times> world" where
  "setDoc uid profile w =
     (case sdk_call (SetDoc uid) w of
        (Some e, w') \<Rightarrow> (Inl e, w')
      | (None, w') \<Rightarrow> (Inr (), w'\<lparr>profiles := (profiles w')(uid \<mapsto> profile)\<rparr>))"

text \<open>The form state of the login component that the two handlers read and write.\<close>

record Login =
  email :: string
  password :: string
  repeatPassword :: string
  displayName :: string
  photoFile :: "File option"
  errorMsg :: string
  isProcessing :: bool

definition handleFirebaseLogin :: "Login \<Rightarrow> world \<Rightarrow> Login \<times> world" where
  "handleFirebaseLogin st w =
     (let st1 = st\<lparr>isProcessing := True, errorMsg := []\<rparr> in
      case signInWithEmailAndPassword (email st) (password st) w of
        (Inr cred, w1) \<Rightarrow> (st1\<lparr>isProcessing := False\<rparr>, w1)
      | (Inl e, w1) \<Rightarrow>
          ((if err_code e = ''auth/invalid-credential'' \<or> err_code e = ''auth/user-not-found''
                \<or> err_code e = ''auth/wrong-password''
            then st1\<lparr>errorMsg := ''password or email incorrect''\<rparr>
            else st1\<lparr>errorMsg := err_message e\<rparr>)\<lparr>isProcessing := False\<rparr>, w1))"

text \<open>The \<^verbatim>\<open>catch\<close> and \<^verbatim>\<open>finally\<close> blocks of \<^verbatim>\<open>handleFirebaseRegister\<close>.\<close>

definition register_catch :: "FirebaseError \<Rightarrow> Login \<Rightarrow> Login" where
  "register_catch e st =
     (if err_code e = ''auth/email-already-in-use''
      then st\<lparr>errorMsg := ''user already exist, sign in?''\<rparr>
      else st\<lparr>errorMsg := err_message e\<rparr>)\<lparr>isProcessing := False\<rparr>"

definition handleFirebaseRegister :: "Login \<Rightarrow> world \<Rightarrow> Login \<times> world" where
  "handleFirebaseRegister st w =
     (let st0 = st\<lparr>errorMsg := []\<rparr> in
      if password st \<noteq> repeatPassword st
      then (st0\<lparr>errorMsg := ''Passwords do not match''\<rparr>, w)
      else
        (let st1 = st0\<lparr>isProcessing := True\<rparr> in
         case createUserWithEmailAndPassword (email st) (password st) w of
           (Inl e, w1) \<Rightarrow> (register_catch e st1, w1)
         | (Inr user, w1) \<Rightarrow>
             (let fileName = (case photoFile st of Some f \<Rightarrow> file_name f
                              | None \<Rightarrow> ''default-avatar.png'');
                  shownName = (if displayName st = [] then ''New User'' else displayName st)
              in case updateProfile user shownName fileName w1 of
                   (Inl e, w2) \<Rightarrow> (register_catch e st1, w2)
                 | (Inr _, w2) \<Rightarrow>
                     (case setDoc (id_uid user)
                             \<lparr>up_name = shownName, up_email = email st,
                              up_photoFileName = fileName\<rparr> w2 of
                        (Inl e, w3) \<Rightarrow> (register_catch e st1, w3)
                      | (Inr _, w3) \<Rightarrow> (st1\<lparr>isProcessing := False\<rparr>, w3)))))"

section \<open>Notions used in the statements\<close>

text \<open>
  The database never hands out an identifier twice: every stored record has an identifier
  below the next one to be assigned. This holds on an empty platform and every function of
  the adapter keeps it.
\<close>

definition ids_fresh :: "world \<Rightarrow> bool" where
  "ids_fresh w = list_all (\<lambda>d. doc_id d < next_id w) (file_docs w)"

text \<open>The calls that write an object, that is, the uploads proper.\<close>

definition is_upload :: "call \<Rightarrow> bool" where
  "is_upload c = (case c of UploadBytes _ \<Rightarrow> True | _ \<Rightarrow> False)"

section \<open>Sample data\<close>

text \<open>An empty platform, three files, a second version of the first, and an error.\<close>

definition empty_world :: world where
  "empty_world =
     \<lparr>client_clock = 0, server_clock = 0, objects = Map.empty, file_docs = [], next_id = 0,
      identities = [], current_user = None, next_uid = 0, profiles = Map.empty,
      faults = [], trace = []\<rparr>"

definition report_pdf :: File where
  "report_pdf =
     \<lparr>file_name = ''report.pdf'', file_size = 4, file_type = ''application/pdf'',
      file_bytes = [37, 80, 68, 70]\<rparr>"

definition notes_txt :: File where
  "notes_txt =
     \<lparr>file_name = ''notes.txt'', file_size = 2, file_type = ''text/plain'',
      file_bytes = [104, 105]\<rparr>"


definition report_v2 :: File where
  "report_v2 =
     \<lparr>file_name = ''report.pdf'', file_size = 5, file_type = ''application/pdf'',
      file_bytes = [37, 80, 68, 70, 50]\<rparr>"

definition network_error :: FirebaseError where
  "network_error = FirebaseError ''unavailable'' ''Network request failed''"

text \<open>
  Alice's platform: her report is stored, uploaded at client time 900; it is now 1000 on
  her clock and 1700 on the platform's.
\<close>

definition alice_world :: world where
  "alice_world =
     empty_world
       \<lparr>client_clock := 1000, server_clock := 1700,
        objects := [''user_uploads/alice/report.pdf'' \<mapsto> report_pdf],
        file_docs :=
          [\<lparr>doc_uid = ''alice'', doc_id = 0,
            doc_data =
              \<lparr>fd_name = ''report.pdf'', fd_size = 4, fd_type = ''application/pdf'',
               fd_downloadUrl = download_url ''user_uploads/alice/report.pdf'',
               fd_storagePath = ''user_uploads/alice/report.pdf'',
               fd_uploadDate = ISOString 900, fd_createdAt = 900\<rparr>\<rparr>],
        next_id := 1\<rparr>"

text \<open>Platforms that reject the first, the second or the third call to come.\<close>

definition alice_first_rejected :: world where
  "alice_first_rejected = alice_world\<lparr>faults := [Some network_error]\<rparr>"

definition alice_second_rejected :: world where
  "alice_second_rejected = alice_world\<lparr>faults := [None, Some network_error]\<rparr>"

definition first_rejected :: world where
  "first_rejected = empty_world\<lparr>faults := [Some network_error]\<rparr>"

definition second_rejected :: world where
  "second_rejected = empty_world\<lparr>faults := [None, Some network_error]\<rparr>"

definition third_rejected :: world where
  "third_rejected = empty_world\<lparr>faults := [None, None, Some network_error]\<rparr>"

text \<open>The platform after Alice's first upload of the report.\<close>

definition after_first_report :: world where
  "after_first_report = snd (uploadUserFile report_pdf ''alice'' empty_world)"






text \<open>Alice's account, a platform that knows it, a documents page and the login forms.\<close>

definition alice :: identity where
  "alice =
     \<lparr>id_uid = ''alice'', id_email = ''alice@example.com'', id_password = ''hunter22'',
      id_displayName = Some ''Alice'', id_photoURL = None\<rparr>"

definition auth_world :: world where
  "auth_world = empty_world\<lparr>identities := [alice], next_uid := 1\<rparr>"

definition page_for :: "identity option \<Rightarrow> DocumentsPage" where
  "page_for user =
     \<lparr>files = [], loading = False, uploading = False, error = None, currentUser = user,
      fileInput = Some ''C:/fakepath/report.pdf''\<rparr>"

definition login_form :: "string \<Rightarrow> string \<Rightarrow> Login" where
  "login_form em pw =
     \<lparr>email = em, password = pw, repeatPassword = [], displayName = [], photoFile = None,
      errorMsg = ''stale message'', isProcessing = False\<rparr>"

definition register_form :: "string \<Rightarrow> string \<Rightarrow> string \<Rightarrow> Login" where
  "register_form em pw pw2 =
     \<lparr>email = em, password = pw, repeatPassword = pw2, displayName = ''Bob'',
      photoFile = None, errorMsg = [], isProcessing = False\<rparr>"

section \<open>Facts about the SDK calls\<close>

lemmas sdk_defs = sdk_call_def uploadBytes_def getDownloadURL_def deleteObject_def
  addDoc_def deleteDoc_def getDocs_def

lemmas sample_defs = empty_world_def alice_world_def report_pdf_def network_error_def

lemma deleteObject_Inl:
  "deleteObject p w = (Inl e, w1) \<Longrightarrow>
     trace w1 = trace w @ [DeleteObject p] \<and> file_docs w1 = file_docs w \<and> objects w1 = objects w"
  by (auto simp: deleteObject_def sdk_call_def split: list.splits option.splits)

lemma deleteObject_Inr:
  "deleteObject p w = (Inr u, w1) \<Longrightarrow>
     trace w1 = trace w @ [DeleteObject p] \<and> file_docs w1 = file_docs w \<and>
     objects w1 = (objects w)(p := None)"
  by (auto simp: deleteObject_def sdk_call_def split: list.splits option.splits)

lemma deleteDoc_Inl:
  "deleteDoc uid i w = (Inl e, w1) \<Longrightarrow>
     trace w1 = trace w @ [DeleteDoc uid i] \<and> file_docs w1 = file_docs w \<and> objects w1 = objects w"
  by (auto simp: deleteDoc_def sdk_call_def split: list.splits option.splits)

lemma deleteDoc_Inr:
  "deleteDoc uid i w = (Inr u, w1) \<Longrightarrow>
     trace w1 = trace w @ [DeleteDoc uid i] \<and> objects w1 = objects w \<and>
     file_docs w1 = filter (\<lambda>d. \<not> (doc_uid d = uid \<and> doc_id d = i)) (file_docs w)"
  by (auto simp: deleteDoc_def sdk_call_def split: list.splits option.splits)

lemma uploadBytes_Inl:
  "uploadBytes p f w = (Inl e, w1) \<Longrightarrow>
     trace w1 = trace w @ [UploadBytes p] \<and> file_docs w1 = file_docs w \<and>
     objects w1 = objects w \<and> next_id w1 = next_id w \<and> client_clock w1 = client_clock w"
  by (auto simp: uploadBytes_def sdk_call_def split: list.splits option.splits)

lemma uploadBytes_Inr:
  "uploadBytes p f w = (Inr r, w1) \<Longrightarrow>
     r = p \<and> trace w1 = trace w @ [UploadBytes p] \<and> file_docs w1 = file_docs w \<and>
     objects w1 = (objects w)(p \<mapsto> f) \<and> next_id w1 = next_id w \<and>
     client_clock w1 = client_clock w"
  by (auto simp: uploadBytes_def sdk_call_def split: list.splits option.splits)

lemma getDownloadURL_Inl:
  "getDownloadURL p w = (Inl e, w1) \<Longrightarrow>
     trace w1 = trace w @ [GetDownloadURL p] \<and> file_docs w1 = file_docs w \<and>
     objects w1 = objects w \<and> next_id w1 = next_id w \<and> client_clock w1 = client_clock w"
  by (auto simp: getDownloadURL_def sdk_call_def split: list.splits option.splits)

lemma getDownloadURL_Inr:
  "getDownloadURL p w = (Inr r, w1) \<Longrightarrow>
     r = download_url p \<and> trace w1 = trace w @ [GetDownloadURL p] \<and>
     file_docs w1 = file_docs w \<and> objects w1 = objects w \<and> next_id w1 = next_id w \<and>
     client_clock w1 = client_clock w"
  by (auto simp: getDownloadURL_def sdk_call_def split: list.splits option.splits)

lemma addDoc_Inl:
  "addDoc uid fd w = (Inl e, w1) \<Longrightarrow>
     trace w1 = trace w @ [AddDoc uid] \<and> file_docs w1 = file_docs w \<and>
     objects w1 = objects w \<and> next_id w1 = next_id w \<and> client_clock w1 = client_clock w"
  by (auto simp: addDoc_def sdk_call_def split: list.splits option.splits)

lemma addDoc_Inr:
  "addDoc uid fd w = (Inr r, w1) \<Longrightarrow>
     r = next_id w \<and> trace w1 = trace w @ [AddDoc uid] \<and>
     file_docs w1 = file_docs w @ [\<lparr>doc_uid = uid, doc_id = next_id w, doc_data = fd\<rparr>] \<and>
     objects w1 = objects w \<and> next_id w1 = Suc (next_id w) \<and>
     client_clock w1 = client_clock w"
  by (auto simp: addDoc_def sdk_call_def split: list.splits option.splits)

lemma getDocs_Inl:
  "getDocs uid w = (Inl e, w1) \<Longrightarrow>
     trace w1 = trace w @ [GetDocs uid] \<and> file_docs w1 = file_docs w \<and>
     objects w1 = objects w \<and> next_id w1 = next_id w"
  by (auto simp: getDocs_def sdk_call_def split: list.splits option.splits)

lemma getDocs_Inr:
  "getDocs uid w = (Inr ds, w1) \<Longrightarrow>
     ds = orderBy_createdAt_desc (collection uid w) \<and>
     trace w1 = trace w @ [GetDocs uid] \<and> file_docs w1 = file_docs w \<and>
     objects w1 = objects w \<and> next_id w1 = next_id w"
  by (auto simp: getDocs_def sdk_call_def collection_def split: list.splits option.splits)

section \<open>Deleting a file\<close>

text \<open>
  Claim C1, as the code has it. \<^verbatim>\<open>deleteUserFile\<close> deletes the object first. When that
  step fails, the function answers with the failure at once: the only call made is the
  object deletion, and the metadata records are as they were. The metadata deletion is
  attempted only after the object deletion succeeded; when it then fails, the answer is a
  failure, the object stays deleted (nothing is rolled back) and the metadata records are
  as they were. When both steps succeed the answer is a success and both calls were made,
  in that order.
\<close>

theorem deleteUserFile_steps:
  "(deleteObject storagePath w = (Inl e, w1) \<longrightarrow>
      deleteUserFile fileId storagePath uid w = (failure e, w1) \<and>
      trace w1 = trace w @ [DeleteObject storagePath] \<and>
      file_docs w1 = file_docs w) \<and>
   (deleteObject storagePath w = (Inr (), w1) \<and> deleteDoc uid fileId w1 = (Inl e, w2) \<longrightarrow>
      deleteUserFile fileId storagePath uid w = (failure e, w2) \<and>
      trace w2 = trace w @ [DeleteObject storagePath, DeleteDoc uid fileId] \<and>
      objects w2 = (objects w)(storagePath := None) \<and>
      file_docs w2 = file_docs w) \<and>
   (deleteObject storagePath w = (Inr (), w1) \<and> deleteDoc uid fileId w1 = (Inr (), w2) \<longrightarrow>
      deleteUserFile fileId storagePath uid w =
        (\<lparr>success = True, data = None, message = Some ''File deleted successfully''\<rparr>, w2) \<and>
      trace w2 = trace w @ [DeleteObject storagePath, DeleteDoc uid fileId])"
proof (intro conjI impI)
  assume a: "deleteObject storagePath w = (Inl e, w1)"
  from a show "deleteUserFile fileId storagePath uid w = (failure e, w1)"
    by (simp add: deleteUserFile_def)
  from deleteObject_Inl [OF a]
  show "trace w1 = trace w @ [DeleteObject storagePath]" and "file_docs w1 = file_docs w"
    by simp_all
next
  assume "deleteObject storagePath w = (Inr (), w1) \<and> deleteDoc uid fileId w1 = (Inl e, w2)"
  then have a: "deleteObject storagePath w = (Inr (), w1)"
    and b: "deleteDoc uid fileId w1 = (Inl e, w2)" by simp_all
  from a b show "deleteUserFile fileId storagePath uid w = (failure e, w2)"
    by (simp add: deleteUserFile_def)
  from deleteObject_Inr [OF a] deleteDoc_Inl [OF b]
  show "trace w2 = trace w @ [DeleteObject storagePath, DeleteDoc uid fileId]"
    and "objects w2 = (objects w)(storagePath := None)"
    and "file_docs w2 = file_docs w"
    by simp_all
next
  assume "deleteObject storagePath w = (Inr (), w1) \<and> deleteDoc uid fileId w1 = (Inr (), w2)"
  then have a: "deleteObject storagePath w = (Inr (), w1)"
    and b: "deleteDoc uid fileId w1 = (Inr (), w2)" by simp_all
  from a b show "deleteUserFile fileId storagePath uid w =
        (\<lparr>success = True, data = None, message = Some ''File deleted successfully''\<rparr>, w2)"
    by (simp add: deleteUserFile_def)
  from deleteObject_Inr [OF a] deleteDoc_Inr [OF b]
  show "trace w2 = trace w @ [DeleteObject storagePath, DeleteDoc uid fileId]"
    by simp
qed

text \<open>
  The three cases on Alice's stored report: the object deletion is rejected, the metadata
  deletion is rejected, and neither is.
\<close>

theorem deleteUserFile_steps_witness:
  "(fst (deleteObject ''user_uploads/alice/report.pdf'' alice_first_rejected) = Inl network_error \<and>
    fst (deleteUserFile 0 ''user_uploads/alice/report.pdf'' ''alice'' alice_first_rejected) =
      failure network_error \<and>
    trace (snd (deleteUserFile 0 ''user_uploads/alice/report.pdf'' ''alice'' alice_first_rejected)) =
      [DeleteObject ''user_uploads/alice/report.pdf'']) \<and>
   (fst (deleteObject ''user_uploads/alice/report.pdf'' alice_second_rejected) = Inr () \<and>
    fst (deleteDoc ''alice'' 0 (snd (deleteObject ''user_uploads/alice/report.pdf'' alice_second_rejected))) =
      Inl network_error \<and>
    fst (deleteUserFile 0 ''user_uploads/alice/report.pdf'' ''alice'' alice_second_rejected) =
      failure network_error \<and>
    objects (snd (deleteUserFile 0 ''user_uploads/alice/report.pdf'' ''alice'' alice_second_rejected))
      ''user_uploads/alice/report.pdf'' = None \<and>
    file_docs (snd (deleteUserFile 0 ''user_uploads/alice/report.pdf'' ''alice'' alice_second_rejected)) =
      file_docs alice_world) \<and>
   (fst (deleteObject ''user_uploads/alice/report.pdf'' alice_world) = Inr () \<and>
    fst (deleteDoc ''alice'' 0 (snd (deleteObject ''user_uploads/alice/report.pdf'' alice_world))) =
      Inr () \<and>
    success (fst (deleteUserFile 0 ''user_uploads/alice/report.pdf'' ''alice'' alice_world)) \<and>
    trace (snd (deleteUserFile 0 ''user_uploads/alice/report.pdf'' ''alice'' alice_world)) =
      [DeleteObject ''user_uploads/alice/report.pdf'', DeleteDoc ''alice'' 0])"
proof -
  let ?p = "''user_uploads/alice/report.pdf''"
  let ?w1 = "\<lambda>w. snd (deleteObject ?p w)"
  let ?w2 = "\<lambda>w. snd (deleteDoc ''alice'' 0 (?w1 w))"
  have a: "deleteObject ?p alice_first_rejected = (Inl network_error, ?w1 alice_first_rejected)"
    by (simp add: alice_first_rejected_def sdk_defs sample_defs)
  have b: "deleteObject ?p alice_second_rejected = (Inr (), ?w1 alice_second_rejected) \<and>
           deleteDoc ''alice'' 0 (?w1 alice_second_rejected) = (Inl network_error, ?w2 alice_second_rejected)"
    by (simp add: alice_second_rejected_def sdk_defs sample_defs)
  have c: "deleteObject ?p alice_world = (Inr (), ?w1 alice_world) \<and>
           deleteDoc ''alice'' 0 (?w1 alice_world) = (Inr (), ?w2 alice_world)"
    by (simp add: sdk_defs sample_defs)
  have init: "trace alice_first_rejected = []" "trace alice_second_rejected = []"
    "trace alice_world = []" "objects alice_second_rejected = objects alice_world"
    "file_docs alice_second_rejected = file_docs alice_world"
    by (simp_all add: alice_first_rejected_def alice_second_rejected_def sample_defs)
  note r1 = deleteUserFile_steps [where fileId = 0 and uid = "''alice''",
      THEN conjunct1, THEN mp, OF a]
  note r2 = deleteUserFile_steps [where fileId = 0 and uid = "''alice''",
      THEN conjunct2, THEN conjunct1, THEN mp, OF b]
  note r3 = deleteUserFile_steps [where fileId = 0 and uid = "''alice''",
      THEN conjunct2, THEN conjunct2, THEN mp, OF c]
  have "fst (deleteObject ?p alice_first_rejected) = Inl network_error"
    using a by (simp add: prod_eq_iff)
  moreover have "fst (deleteObject ?p alice_second_rejected) = Inr ()"
    "fst (deleteDoc ''alice'' 0 (?w1 alice_second_rejected)) = Inl network_error"
    using b by (simp_all add: prod_eq_iff)
  moreover have "fst (deleteObject ?p alice_world) = Inr ()"
    "fst (deleteDoc ''alice'' 0 (?w1 alice_world)) = Inr ()"
    using c by (simp_all add: prod_eq_iff)
  ultimately show ?thesis
    using r1 r2 r3 by (simp add: init)
qed

text \<open>
  Claim C1 as stated says that the metadata deletion is performed even when the object
  deletion fails. With the object deletion rejected, \<^verbatim>\<open>deleteDoc\<close> is never called and
  the record is still there.
\<close>

theorem deleteUserFile_skips_metadata_counterexample:
  "fst (deleteUserFile 0 ''user_uploads/alice/report.pdf'' ''alice'' alice_first_rejected) =
     failure network_error \<and>
   DeleteDoc ''alice'' 0 \<notin>
     set (trace (snd (deleteUserFile 0 ''user_uploads/alice/report.pdf'' ''alice'' alice_first_rejected))) \<and>
   file_docs (snd (deleteUserFile 0 ''user_uploads/alice/report.pdf'' ''alice'' alice_first_rejected)) =
     file_docs alice_first_rejected \<and>
   file_docs alice_first_rejected \<noteq> []"
  by (simp add: deleteUserFile_def alice_first_rejected_def sdk_defs sample_defs)

section \<open>Failures of an upload\<close>

text \<open>
  Claim C2, as the code has it. \<^verbatim>\<open>uploadUserFile\<close> has one \<^verbatim>\<open>catch\<close> block for its
  three calls, and the answer it builds there carries \<^verbatim>\<open>success: false\<close> and the message
  of the error, nothing else. When the object write fails, or the object write succeeds and
  the URL retrieval fails, that is the answer, and the metadata write is not attempted: the
  trace ends with the failed call and the records are as they were. When the bytes were
  stored and the metadata write fails, the answer has the same shape with the message of
  that error; the object stays in the store (no deletion is attempted) and no record was
  added.
\<close>

theorem uploadUserFile_failures:
  "(uploadBytes (storage_path uid file) file w = (Inl e, w1) \<longrightarrow>
      uploadUserFile file uid w = (failure e, w1) \<and>
      trace w1 = trace w @ [UploadBytes (storage_path uid file)] \<and>
      file_docs w1 = file_docs w) \<and>
   (uploadBytes (storage_path uid file) file w = (Inr r, w1) \<and>
    getDownloadURL r w1 = (Inl e, w2) \<longrightarrow>
      uploadUserFile file uid w = (failure e, w2) \<and>
      trace w2 = trace w @ [UploadBytes (storage_path uid file),
                            GetDownloadURL (storage_path uid file)] \<and>
      file_docs w2 = file_docs w) \<and>
   (uploadBytes (storage_path uid file) file w = (Inr r, w1) \<and>
    getDownloadURL r w1 = (Inr url, w2) \<and>
    addDoc uid (make_fileData file (storage_path uid file) url w2) w2 = (Inl e, w3) \<longrightarrow>
      uploadUserFile file uid w = (failure e, w3) \<and>
      trace w3 = trace w @ [UploadBytes (storage_path uid file),
                            GetDownloadURL (storage_path uid file), AddDoc uid] \<and>
      objects w3 (storage_path uid file) = Some file \<and>
      file_docs w3 = file_docs w)"
proof (intro conjI impI)
  assume a: "uploadBytes (storage_path uid file) file w = (Inl e, w1)"
  from a show "uploadUserFile file uid w = (failure e, w1)"
    by (simp add: uploadUserFile_def)
  from uploadBytes_Inl [OF a]
  show "trace w1 = trace w @ [UploadBytes (storage_path uid file)]"
    and "file_docs w1 = file_docs w"
    by simp_all
next
  assume "uploadBytes (storage_path uid file) file w = (Inr r, w1) \<and>
          getDownloadURL r w1 = (Inl e, w2)"
  then have a: "uploadBytes (storage_path uid file) file w = (Inr r, w1)"
    and b: "getDownloadURL r w1 = (Inl e, w2)" by simp_all
  from a b show "uploadUserFile file uid w = (failure e, w2)"
    by (simp add: uploadUserFile_def)
  from uploadBytes_Inr [OF a] have r: "r = storage_path uid file" by simp
  from uploadBytes_Inr [OF a] getDownloadURL_Inl [OF b] r
  show "trace w2 = trace w @ [UploadBytes (storage_path uid file),
                              GetDownloadURL (storage_path uid file)]"
    and "file_docs w2 = file_docs w"
    by simp_all
next
  assume "uploadBytes (storage_path uid file) file w = (Inr r, w1) \<and>
          getDownloadURL r w1 = (Inr url, w2) \<and>
          addDoc uid (make_fileData file (storage_path uid file) url w2) w2 = (Inl e, w3)"
  then have a: "uploadBytes (storage_path uid file) file w = (Inr r, w1)"
    and b: "getDownloadURL r w1 = (Inr url, w2)"
    and c: "addDoc uid (make_fileData file (storage_path uid file) url w2) w2 = (Inl e, w3)"
    by simp_all
  from a b c show "uploadUserFile file uid w = (failure e, w3)"
    by (simp add: uploadUserFile_def)
  from uploadBytes_Inr [OF a] have r: "r = storage_path uid file" by simp
  from uploadBytes_Inr [OF a] getDownloadURL_Inr [OF b] addDoc_Inl [OF c] r
  show "trace w3 = trace w @ [UploadBytes (storage_path uid file),
                              GetDownloadURL (storage_path uid file), AddDoc uid]"
    and "objects w3 (storage_path uid file) = Some file"
    and "file_docs w3 = file_docs w"
    by simp_all
qed

lemmas upload_fault_defs = first_rejected_def second_rejected_def
  third_rejected_def

text \<open>
  The three cases on an empty platform: the first, the second and the third call of the
  upload are rejected.
\<close>

theorem uploadUserFile_failures_witness:
  "(fst (uploadBytes (storage_path ''alice'' report_pdf) report_pdf first_rejected) =
      Inl network_error \<and>
    fst (uploadUserFile report_pdf ''alice'' first_rejected) = failure network_error \<and>
    trace (snd (uploadUserFile report_pdf ''alice'' first_rejected)) =
      [UploadBytes ''user_uploads/alice/report.pdf'']) \<and>
   (fst (uploadBytes (storage_path ''alice'' report_pdf) report_pdf second_rejected) =
      Inr ''user_uploads/alice/report.pdf'' \<and>
    fst (getDownloadURL ''user_uploads/alice/report.pdf''
          (snd (uploadBytes (storage_path ''alice'' report_pdf) report_pdf second_rejected))) =
      Inl network_error \<and>
    fst (uploadUserFile report_pdf ''alice'' second_rejected) = failure network_error \<and>
    trace (snd (uploadUserFile report_pdf ''alice'' second_rejected)) =
      [UploadBytes ''user_uploads/alice/report.pdf'',
       GetDownloadURL ''user_uploads/alice/report.pdf'']) \<and>
   (fst (uploadUserFile report_pdf ''alice'' third_rejected) = failure network_error \<and>
    trace (snd (uploadUserFile report_pdf ''alice'' third_rejected)) =
      [UploadBytes ''user_uploads/alice/report.pdf'',
       GetDownloadURL ''user_uploads/alice/report.pdf'', AddDoc ''alice''] \<and>
    objects (snd (uploadUserFile report_pdf ''alice'' third_rejected))
      ''user_uploads/alice/report.pdf'' = Some report_pdf \<and>
    file_docs (snd (uploadUserFile report_pdf ''alice'' third_rejected)) = [])"
proof -
  let ?p = "storage_path ''alice'' report_pdf"
  let ?w1 = "\<lambda>w. snd (uploadBytes ?p report_pdf w)"
  let ?w2 = "\<lambda>w. snd (getDownloadURL ?p (?w1 w))"
  let ?fd = "\<lambda>w. make_fileData report_pdf ?p (download_url ?p) (?w2 w)"
  let ?w3 = "\<lambda>w. snd (addDoc ''alice'' (?fd w) (?w2 w))"
  have p: "?p = ''user_uploads/alice/report.pdf''"
    by (simp add: storage_path_def report_pdf_def)
  have a: "uploadBytes ?p report_pdf first_rejected =
             (Inl network_error, ?w1 first_rejected)"
    by (simp add: upload_fault_defs sdk_defs sample_defs)
  have b: "uploadBytes ?p report_pdf second_rejected = (Inr ?p, ?w1 second_rejected) \<and>
           getDownloadURL ?p (?w1 second_rejected) =
             (Inl network_error, ?w2 second_rejected)"
    by (simp add: upload_fault_defs sdk_defs sample_defs)
  have c: "uploadBytes ?p report_pdf third_rejected = (Inr ?p, ?w1 third_rejected) \<and>
           getDownloadURL ?p (?w1 third_rejected) =
             (Inr (download_url ?p), ?w2 third_rejected) \<and>
           addDoc ''alice'' (?fd third_rejected) (?w2 third_rejected) =
             (Inl network_error, ?w3 third_rejected)"
    by (simp add: upload_fault_defs sdk_defs sample_defs)
  have init: "trace first_rejected = []" "trace second_rejected = []"
    "trace third_rejected = []" "file_docs third_rejected = []"
    by (simp_all add: upload_fault_defs sample_defs)
  note r1 = uploadUserFile_failures [THEN conjunct1, THEN mp, OF a]
  note r2 = uploadUserFile_failures [THEN conjunct2, THEN conjunct1, THEN mp, OF b]
  note r3 = uploadUserFile_failures [THEN conjunct2, THEN conjunct2, THEN mp, OF c]
  have "fst (uploadBytes ?p report_pdf first_rejected) = Inl network_error"
    using a by (simp add: prod_eq_iff)
  moreover have "fst (uploadBytes ?p report_pdf second_rejected) = Inr ?p"
    "fst (getDownloadURL ?p (?w1 second_rejected)) = Inl network_error"
    using b by (simp_all add: prod_eq_iff)
  ultimately show ?thesis
    using r1 r2 r3 by (simp add: init p)
qed

text \<open>
  Claim C2 as stated says that the two situations fail with two distinct error kinds. The
  code has no error kinds: a rejected object write and a rejected metadata write with the
  same message give the very same answer, although the calls made differ.
\<close>

theorem uploadUserFile_same_failure_counterexample:
  "fst (uploadUserFile report_pdf ''alice'' first_rejected) =
     fst (uploadUserFile report_pdf ''alice'' third_rejected) \<and>
   trace (snd (uploadUserFile report_pdf ''alice'' first_rejected)) =
     [UploadBytes ''user_uploads/alice/report.pdf''] \<and>
   trace (snd (uploadUserFile report_pdf ''alice'' third_rejected)) =
     [UploadBytes ''user_uploads/alice/report.pdf'',
      GetDownloadURL ''user_uploads/alice/report.pdf'', AddDoc ''alice'']"
  by (simp add: uploadUserFile_def Let_def storage_path_def upload_fault_defs sdk_defs sample_defs)

section \<open>The answers of the adapter\<close>







section \<open>Successful runs of the adapter\<close>

lemma uploadUserFile_success:
  assumes "uploadUserFile file uid w = (r, w')" and "success r"
  shows "data r = Some (with_id (next_id w)
                   (make_fileData file (storage_path uid file)
                      (download_url (storage_path uid file)) w))"
    and "file_docs w' = file_docs w @
           [\<lparr>doc_uid = uid, doc_id = next_id w,
             doc_data = make_fileData file (storage_path uid file)
                          (download_url (storage_path uid file)) w\<rparr>]"
    and "objects w' = (objects w)(storage_path uid file \<mapsto> file)"
    and "next_id w' = Suc (next_id w)"
    and "client_clock w' = client_clock w"
    and "trace w' = trace w @ [UploadBytes (storage_path uid file),
                               GetDownloadURL (storage_path uid file), AddDoc uid]"
proof -
  let ?sp = "storage_path uid file"
  obtain r1 w1 where a: "uploadBytes ?sp file w = (r1, w1)" by (cases "uploadBytes ?sp file w")
  from assms a obtain p where r1: "r1 = Inr p"
    by (cases r1) (auto simp: uploadUserFile_def failure_def)
  from uploadBytes_Inr [OF a [unfolded r1]] have p: "p = ?sp" and
    e1: "trace w1 = trace w @ [UploadBytes ?sp]" "file_docs w1 = file_docs w"
      "objects w1 = (objects w)(?sp \<mapsto> file)" "next_id w1 = next_id w"
      "client_clock w1 = client_clock w"
    by simp_all
  obtain r2 w2 where b: "getDownloadURL ?sp w1 = (r2, w2)" by (cases "getDownloadURL ?sp w1")
  from assms a b r1 p obtain url where r2: "r2 = Inr url"
    by (cases r2) (auto simp: uploadUserFile_def failure_def)
  from getDownloadURL_Inr [OF b [unfolded r2]] have url: "url = download_url ?sp" and
    e2: "trace w2 = trace w1 @ [GetDownloadURL ?sp]" "file_docs w2 = file_docs w1"
      "objects w2 = objects w1" "next_id w2 = next_id w1" "client_clock w2 = client_clock w1"
    by simp_all
  let ?fd = "make_fileData file ?sp url w2"
  have fd: "?fd = make_fileData file ?sp (download_url ?sp) w"
    using url e1 e2 by (simp add: make_fileData_def)
  obtain r3 w3 where c: "addDoc uid ?fd w2 = (r3, w3)" by (cases "addDoc uid ?fd w2")
  from assms a b c r1 r2 p obtain i where r3: "r3 = Inr i"
    by (cases r3) (auto simp: uploadUserFile_def failure_def Let_def)
  from addDoc_Inr [OF c [unfolded r3]] have i: "i = next_id w2" and
    e3: "trace w3 = trace w2 @ [AddDoc uid]"
      "file_docs w3 = file_docs w2 @ [\<lparr>doc_uid = uid, doc_id = next_id w2, doc_data = ?fd\<rparr>]"
      "objects w3 = objects w2" "next_id w3 = Suc (next_id w2)" "client_clock w3 = client_clock w2"
    by simp_all
  from assms a b c r1 r2 r3 p
  have res: "r = \<lparr>success = True, data = Some (with_id i ?fd), message = None\<rparr>" "w' = w3"
    by (auto simp: uploadUserFile_def Let_def)
  show "data r = Some (with_id (next_id w) (make_fileData file ?sp (download_url ?sp) w))"
    using res i e1 e2 fd by simp
  show "file_docs w' = file_docs w @
           [\<lparr>doc_uid = uid, doc_id = next_id w,
             doc_data = make_fileData file ?sp (download_url ?sp) w\<rparr>]"
    using res e1 e2 e3 fd by simp
  show "objects w' = (objects w)(?sp \<mapsto> file)" using res e1 e2 e3 by simp
  show "next_id w' = Suc (next_id w)" using res e1 e2 e3 by simp
  show "client_clock w' = client_clock w" using res e1 e2 e3 by simp
  show "trace w' = trace w @ [UploadBytes ?sp, GetDownloadURL ?sp, AddDoc uid]"
    using res e1 e2 e3 by simp
qed

lemma getUserFiles_success:
  assumes "getUserFiles uid w = (r, w')" and "data r = Some fs"
  shows "fs = map to_UserFile (orderBy_createdAt_desc (collection uid w))"
    and "file_docs w' = file_docs w" and "next_id w' = next_id w" and "objects w' = objects w"
proof -
  obtain r1 w1 where a: "getDocs uid w = (r1, w1)" by (cases "getDocs uid w")
  from assms a obtain ds where r1: "r1 = Inr ds"
    by (cases r1) (auto simp: getUserFiles_def failure_def)
  from getDocs_Inr [OF a [unfolded r1]] assms a r1
  show "fs = map to_UserFile (orderBy_createdAt_desc (collection uid w))"
    and "file_docs w' = file_docs w" and "next_id w' = next_id w" and "objects w' = objects w"
    by (auto simp: getUserFiles_def)
qed


section \<open>The two timestamps\<close>

text \<open>
  Claim C3, as the code has it. A successful upload appends one record to the user's
  collection, and both timestamps of that record were read from the client's clock while
  the literal was built, before the metadata write: the upload date is the text of that
  instant and the ordering timestamp \<^verbatim>\<open>createdAt\<close> is the same clock's value. The
  platform's clock plays no part. The records a listing returns carry the stored upload
  date and no \<^verbatim>\<open>createdAt\<close>.
\<close>

theorem upload_timestamps:
  "(uploadUserFile file uid w = (r, w') \<and> success r \<longrightarrow>
      (\<exists>fd. file_docs w' = file_docs w @ [\<lparr>doc_uid = uid, doc_id = next_id w, doc_data = fd\<rparr>] \<and>
            fd_uploadDate fd = ISOString (client_clock w) \<and>
            fd_createdAt fd = client_clock w)) \<and>
   (getUserFiles uid w = (r', w'') \<and> data r' = Some fs \<longrightarrow>
      list_all (\<lambda>f. uf_createdAt f = None) fs \<and>
      map uf_uploadDate fs =
        map (\<lambda>d. fd_uploadDate (doc_data d)) (orderBy_createdAt_desc (collection uid w)))"
proof (intro conjI impI)
  assume "uploadUserFile file uid w = (r, w') \<and> success r"
  then have a: "uploadUserFile file uid w = (r, w')" and b: "success r" by simp_all
  from uploadUserFile_success(2) [OF a b]
  show "\<exists>fd. file_docs w' = file_docs w @ [\<lparr>doc_uid = uid, doc_id = next_id w, doc_data = fd\<rparr>] \<and>
            fd_uploadDate fd = ISOString (client_clock w) \<and>
            fd_createdAt fd = client_clock w"
    by (simp add: make_fileData_def)
next
  assume "getUserFiles uid w = (r', w'') \<and> data r' = Some fs"
  then have a: "getUserFiles uid w = (r', w'')" and b: "data r' = Some fs" by simp_all
  from getUserFiles_success(1) [OF a b]
  show "list_all (\<lambda>f. uf_createdAt f = None) fs"
    and "map uf_uploadDate fs =
        map (\<lambda>d. fd_uploadDate (doc_data d)) (orderBy_createdAt_desc (collection uid w))"
    by (simp_all add: list_all_iff to_UserFile_def)
qed

text \<open>
  Alice uploads her notes at client time 1000, with the platform's clock at 1700, and
  lists her files.
\<close>

theorem upload_timestamps_witness:
  "success (fst (uploadUserFile notes_txt ''alice'' alice_world)) \<and>
   map (\<lambda>d. (fd_uploadDate (doc_data d), fd_createdAt (doc_data d)))
     (file_docs (snd (uploadUserFile notes_txt ''alice'' alice_world))) =
     [(ISOString 900, 900), (ISOString 1000, 1000)] \<and>
   map_option (map (\<lambda>f. (uf_uploadDate f, uf_createdAt f)))
     (data (fst (getUserFiles ''alice'' alice_world))) = Some [(ISOString 900, None)]"
proof -
  let ?u = "uploadUserFile notes_txt ''alice'' alice_world"
  let ?l = "getUserFiles ''alice'' alice_world"
  let ?fs = "[to_UserFile (hd (file_docs alice_world))]"
  have a: "?u = (fst ?u, snd ?u) \<and> success (fst ?u)"
    by (simp add: uploadUserFile_def storage_path_def Let_def sdk_defs sample_defs notes_txt_def)
  have b: "?l = (fst ?l, snd ?l) \<and> data (fst ?l) = Some ?fs"
    by (simp add: getUserFiles_def orderBy_createdAt_desc_def collection_def sdk_defs sample_defs)
  note r1 = upload_timestamps [THEN conjunct1, THEN mp, OF a]
  note r2 = upload_timestamps [THEN conjunct2, THEN mp, OF b]
  have c: "file_docs alice_world \<noteq> [] \<and>
           map (\<lambda>d. (fd_uploadDate (doc_data d), fd_createdAt (doc_data d))) (file_docs alice_world) =
             [(ISOString 900, 900)] \<and> client_clock alice_world = 1000"
    by (simp add: sample_defs)
  from r1 obtain fd where
    "file_docs (snd ?u) = file_docs alice_world @
        [\<lparr>doc_uid = ''alice'', doc_id = next_id alice_world, doc_data = fd\<rparr>]"
    "fd_uploadDate fd = ISOString (client_clock alice_world)"
    "fd_createdAt fd = client_clock alice_world"
    by blast
  with a b c r2 show ?thesis
    by (simp add: to_UserFile_def sample_defs)
qed

text \<open>
  Claim C3 as stated says that the ordering timestamp is generated by the server and is
  never handed to a caller. After Alice's upload at client time 1000 the stored ordering
  timestamp is 1000 while the platform's clock reads 1700, and the record that the upload
  returns to its caller carries \<^verbatim>\<open>createdAt\<close>.
\<close>

theorem createdAt_from_client_counterexample:
  "map (\<lambda>d. fd_createdAt (doc_data d))
     (file_docs (snd (uploadUserFile notes_txt ''alice'' alice_world))) = [900, 1000] \<and>
   client_clock alice_world = 1000 \<and>
   server_clock (snd (uploadUserFile notes_txt ''alice'' alice_world)) = 1700 \<and>
   map_option uf_createdAt (data (fst (uploadUserFile notes_txt ''alice'' alice_world))) =
     Some (Some 1000)"
  by (simp add: uploadUserFile_def storage_path_def Let_def make_fileData_def with_id_def
      sdk_defs sample_defs notes_txt_def)

section \<open>The storage path\<close>

lemma uploadUserFile_first_call:
  "\<exists>rest. trace (snd (uploadUserFile file uid w)) =
            trace w @ UploadBytes (storage_path uid file) # rest"
proof -
  let ?sp = "storage_path uid file"
  obtain r1 w1 where a: "uploadBytes ?sp file w = (r1, w1)" by (cases "uploadBytes ?sp file w")
  have t1: "trace w1 = trace w @ [UploadBytes ?sp]"
    using a uploadBytes_Inl [of ?sp "file" w _ w1] uploadBytes_Inr [of ?sp "file" w _ w1]
    by (cases r1) auto
  show ?thesis
  proof (cases r1)
    case (Inl e)
    with a t1 show ?thesis by (simp add: uploadUserFile_def)
  next
    case (Inr p)
    obtain r2 w2 where b: "getDownloadURL p w1 = (r2, w2)" by (cases "getDownloadURL p w1")
    have t2: "trace w2 = trace w1 @ [GetDownloadURL p]"
      using b getDownloadURL_Inl [of p w1 _ w2] getDownloadURL_Inr [of p w1 _ w2]
      by (cases r2) auto
    show ?thesis
    proof (cases r2)
      case (Inl e)
      with a b Inr t1 t2 show ?thesis by (simp add: uploadUserFile_def)
    next
      case (Inr url)
      let ?fd = "make_fileData file ?sp url w2"
      obtain r3 w3 where c: "addDoc uid ?fd w2 = (r3, w3)" by (cases "addDoc uid ?fd w2")
      have t3: "trace w3 = trace w2 @ [AddDoc uid]"
        using c addDoc_Inl [of uid ?fd w2 _ w3] addDoc_Inr [of uid ?fd w2 _ w3]
        by (cases r3) auto
      from a b c \<open>r1 = Inr p\<close> Inr t1 t2 t3 show ?thesis
        by (cases r3) (simp_all add: uploadUserFile_def Let_def)
    qed
  qed
qed

text \<open>
  Claim C4. The path an upload writes to is \<^verbatim>\<open>user_uploads/\<close>, the user id, a slash and
  the file's name: it is the argument of the first call of every upload. So when a user
  uploads a file and later a second file of the same name, both successfully, the two
  answers carry the same storage path and two different record ids; the store holds one
  object at that path, the second file, where the first was; and the collection has gained
  two records, one for each upload, with that same storage path.
\<close>

theorem same_name_uploads:
  "(\<exists>rest. trace (snd (uploadUserFile file uid w)) =
             trace w @ UploadBytes (''user_uploads/'' @ uid @ ''/'' @ file_name file) # rest) \<and>
   (uploadUserFile f1 uid w = (r1, w1) \<and> success r1 \<and>
    uploadUserFile f2 uid (w1\<lparr>client_clock := t\<rparr>) = (r2, w2) \<and> success r2 \<and>
    file_name f2 = file_name f1 \<longrightarrow>
      (\<exists>d1 d2 fd1 fd2.
         data r1 = Some d1 \<and> data r2 = Some d2 \<and>
         uf_storagePath d1 = ''user_uploads/'' @ uid @ ''/'' @ file_name f1 \<and>
         uf_storagePath d2 = ''user_uploads/'' @ uid @ ''/'' @ file_name f1 \<and>
         uf_id d1 \<noteq> uf_id d2 \<and>
         objects w2 = (objects w)(''user_uploads/'' @ uid @ ''/'' @ file_name f1 \<mapsto> f2) \<and>
         file_docs w2 = file_docs w @
           [\<lparr>doc_uid = uid, doc_id = uf_id d1, doc_data = fd1\<rparr>,
            \<lparr>doc_uid = uid, doc_id = uf_id d2, doc_data = fd2\<rparr>] \<and>
         fd_storagePath fd1 = ''user_uploads/'' @ uid @ ''/'' @ file_name f1 \<and>
         fd_storagePath fd2 = ''user_uploads/'' @ uid @ ''/'' @ file_name f1))"
proof (intro conjI impI)
  show "\<exists>rest. trace (snd (uploadUserFile file uid w)) =
             trace w @ UploadBytes (''user_uploads/'' @ uid @ ''/'' @ file_name file) # rest"
    using uploadUserFile_first_call [of "file" uid w] by (simp add: storage_path_def)
next
  let ?sp = "''user_uploads/'' @ uid @ ''/'' @ file_name f1"
  let ?w1 = "w1\<lparr>client_clock := t\<rparr>"
  assume "uploadUserFile f1 uid w = (r1, w1) \<and> success r1 \<and>
    uploadUserFile f2 uid ?w1 = (r2, w2) \<and> success r2 \<and> file_name f2 = file_name f1"
  then have a: "uploadUserFile f1 uid w = (r1, w1)" and sa: "success r1"
    and b: "uploadUserFile f2 uid ?w1 = (r2, w2)" and sb: "success r2"
    and n: "file_name f2 = file_name f1" by simp_all
  have sp1: "storage_path uid f1 = ?sp" and sp2: "storage_path uid f2 = ?sp"
    using n by (simp_all add: storage_path_def)
  let ?fd1 = "make_fileData f1 ?sp (download_url ?sp) w"
  let ?fd2 = "make_fileData f2 ?sp (download_url ?sp) ?w1"
  note u1 = uploadUserFile_success [OF a sa, unfolded sp1]
  note u2 = uploadUserFile_success [OF b sb, unfolded sp2]
  have "data r1 = Some (with_id (next_id w) ?fd1)" using u1 by simp
  moreover have "data r2 = Some (with_id (Suc (next_id w)) ?fd2)" using u1 u2 by simp
  moreover have "objects w2 = (objects w)(?sp \<mapsto> f2)" using u1 u2 by simp
  moreover have "file_docs w2 = file_docs w @
           [\<lparr>doc_uid = uid, doc_id = next_id w, doc_data = ?fd1\<rparr>,
            \<lparr>doc_uid = uid, doc_id = Suc (next_id w), doc_data = ?fd2\<rparr>]"
    using u1 u2 by simp
  moreover have "fd_storagePath ?fd1 = ?sp" "fd_storagePath ?fd2 = ?sp"
    by (simp_all add: make_fileData_def)
  ultimately show "\<exists>d1 d2 fd1 fd2.
         data r1 = Some d1 \<and> data r2 = Some d2 \<and>
         uf_storagePath d1 = ?sp \<and> uf_storagePath d2 = ?sp \<and>
         uf_id d1 \<noteq> uf_id d2 \<and>
         objects w2 = (objects w)(?sp \<mapsto> f2) \<and>
         file_docs w2 = file_docs w @
           [\<lparr>doc_uid = uid, doc_id = uf_id d1, doc_data = fd1\<rparr>,
            \<lparr>doc_uid = uid, doc_id = uf_id d2, doc_data = fd2\<rparr>] \<and>
         fd_storagePath fd1 = ?sp \<and> fd_storagePath fd2 = ?sp"
    by (intro exI [of _ "with_id (next_id w) ?fd1"] exI [of _ "with_id (Suc (next_id w)) ?fd2"]
        exI [of _ ?fd1] exI [of _ ?fd2]) (simp add: with_id_def)
qed

text \<open>
  On an empty platform Alice uploads her report, and at client time 50 a second version
  under the same name.
\<close>

theorem same_name_uploads_witness:
  "success (fst (uploadUserFile report_pdf ''alice'' empty_world)) \<and>
   success (fst (uploadUserFile report_v2 ''alice'' (after_first_report\<lparr>client_clock := 50\<rparr>))) \<and>
   file_name report_v2 = file_name report_pdf \<and>
   map_option (\<lambda>d. (uf_id d, uf_storagePath d))
     (data (fst (uploadUserFile report_pdf ''alice'' empty_world))) =
     Some (0, ''user_uploads/alice/report.pdf'') \<and>
   map_option (\<lambda>d. (uf_id d, uf_storagePath d))
     (data (fst (uploadUserFile report_v2 ''alice'' (after_first_report\<lparr>client_clock := 50\<rparr>)))) =
     Some (1, ''user_uploads/alice/report.pdf'') \<and>
   objects (snd (uploadUserFile report_v2 ''alice'' (after_first_report\<lparr>client_clock := 50\<rparr>)))
     ''user_uploads/alice/report.pdf'' = Some report_v2 \<and>
   map (\<lambda>d. (doc_id d, fd_storagePath (doc_data d)))
     (file_docs (snd (uploadUserFile report_v2 ''alice'' (after_first_report\<lparr>client_clock := 50\<rparr>)))) =
     [(0, ''user_uploads/alice/report.pdf''), (1, ''user_uploads/alice/report.pdf'')]"
proof -
  let ?u1 = "uploadUserFile report_pdf ''alice'' empty_world"
  let ?u2 = "uploadUserFile report_v2 ''alice'' (after_first_report\<lparr>client_clock := 50\<rparr>)"
  note ev = uploadUserFile_def storage_path_def Let_def make_fileData_def with_id_def
    sdk_defs empty_world_def report_pdf_def report_v2_def after_first_report_def
  have s1: "success (fst ?u1)" by (simp add: ev)
  have s2: "success (fst ?u2)" by (simp add: ev)
  have n: "file_name report_v2 = file_name report_pdf" by (simp add: ev)
  have h: "?u1 = (fst ?u1, after_first_report) \<and> success (fst ?u1) \<and>
           ?u2 = (fst ?u2, snd ?u2) \<and> success (fst ?u2) \<and>
           file_name report_v2 = file_name report_pdf"
    using s1 s2 n by (simp add: after_first_report_def)
  note r = same_name_uploads [THEN conjunct2, THEN mp, OF h]
  have "map_option (\<lambda>d. (uf_id d, uf_storagePath d)) (data (fst ?u1)) =
          Some (0, ''user_uploads/alice/report.pdf'')"
    by (simp add: ev)
  moreover have "map_option (\<lambda>d. (uf_id d, uf_storagePath d)) (data (fst ?u2)) =
          Some (1, ''user_uploads/alice/report.pdf'')"
    by (simp add: ev)
  moreover have "objects (snd ?u2) ''user_uploads/alice/report.pdf'' = Some report_v2"
    by (simp add: ev)
  moreover have "map (\<lambda>d. (doc_id d, fd_storagePath (doc_data d))) (file_docs (snd ?u2)) =
     [(0, ''user_uploads/alice/report.pdf''), (1, ''user_uploads/alice/report.pdf'')]"
    by (simp add: ev)
  ultimately show ?thesis using s1 s2 n r by simp
qed

section \<open>Upload, list, delete, list\<close>

text \<open>The invariant holds on an empty platform and the adapter keeps it.\<close>

lemma ids_fresh_empty_world: "ids_fresh empty_world"
  by (simp add: ids_fresh_def empty_world_def)

lemma ids_fresh_getUserFiles: "ids_fresh w \<Longrightarrow> ids_fresh (snd (getUserFiles uid w))"
proof -
  assume f: "ids_fresh w"
  obtain r1 w1 where a: "getDocs uid w = (r1, w1)" by (cases "getDocs uid w")
  have "file_docs w1 = file_docs w \<and> next_id w1 = next_id w"
    using a getDocs_Inl [of uid w _ w1] getDocs_Inr [of uid w _ w1] by (cases r1) auto
  with a f show ?thesis
    by (cases r1) (simp_all add: getUserFiles_def ids_fresh_def)
qed

lemma ids_fresh_uploadUserFile:
  "ids_fresh w \<Longrightarrow> ids_fresh (snd (uploadUserFile file uid w))"
  by (auto simp: ids_fresh_def list_all_iff uploadUserFile_def Let_def sdk_defs
      split: prod.splits sum.splits list.splits option.splits intro: less_SucI)

lemma ids_fresh_deleteUserFile:
  "ids_fresh w \<Longrightarrow> ids_fresh (snd (deleteUserFile fileId storagePath uid w))"
  by (auto simp: ids_fresh_def list_all_iff deleteUserFile_def sdk_defs
      split: prod.splits sum.splits list.splits option.splits)










section \<open>The order of a listing\<close>





section \<open>The upload handler of the documents page\<close>

lemma uploadUserFile_uploads:
  "filter is_upload (trace (snd (uploadUserFile file uid w))) =
     filter is_upload (trace w) @ [UploadBytes (storage_path uid file)]"
proof -
  let ?sp = "storage_path uid file"
  from uploadUserFile_first_call [of "file" uid w] obtain rest where
    t: "trace (snd (uploadUserFile file uid w)) = trace w @ UploadBytes ?sp # rest" by blast
  have "set rest \<subseteq> {GetDownloadURL ?sp, AddDoc uid}"
  proof -
    obtain r1 w1 where a: "uploadBytes ?sp file w = (r1, w1)" by (cases "uploadBytes ?sp file w")
    show ?thesis
    proof (cases r1)
      case (Inl e)
      with a uploadBytes_Inl [of ?sp "file" w e w1] t show ?thesis
        by (auto simp: uploadUserFile_def)
    next
      case r1: (Inr p)
      from uploadBytes_Inr [of ?sp "file" w p w1] a r1 have p: "p = ?sp"
        and t1: "trace w1 = trace w @ [UploadBytes ?sp]" by simp_all
      obtain r2 w2 where b: "getDownloadURL ?sp w1 = (r2, w2)" by (cases "getDownloadURL ?sp w1")
      show ?thesis
      proof (cases r2)
        case (Inl e)
        with a b r1 p t1 getDownloadURL_Inl [of ?sp w1 e w2] t show ?thesis
          by (auto simp: uploadUserFile_def)
      next
        case r2: (Inr url)
        from getDownloadURL_Inr [of ?sp w1 url w2] b r2
        have t2: "trace w2 = trace w1 @ [GetDownloadURL ?sp]" by simp
        let ?fd = "make_fileData file ?sp url w2"
        obtain r3 w3 where c: "addDoc uid ?fd w2 = (r3, w3)" by (cases "addDoc uid ?fd w2")
        have t3: "trace w3 = trace w2 @ [AddDoc uid]"
          using c addDoc_Inl [of uid ?fd w2 _ w3] addDoc_Inr [of uid ?fd w2 _ w3]
          by (cases r3) auto
        from a b c r1 r2 p t1 t2 t3 t show ?thesis
          by (cases r3) (auto simp: uploadUserFile_def Let_def)
      qed
    qed
  qed
  then have "filter is_upload rest = []"
    by (auto simp: filter_empty_conv is_upload_def)
  with t show ?thesis by (simp add: is_upload_def)
qed

lemma getUserFiles_uploads:
  "filter is_upload (trace (snd (getUserFiles uid w))) = filter is_upload (trace w)"
proof -
  obtain r1 w1 where a: "getDocs uid w = (r1, w1)" by (cases "getDocs uid w")
  have "trace w1 = trace w @ [GetDocs uid]"
    using a getDocs_Inl [of uid w _ w1] getDocs_Inr [of uid w _ w1] by (cases r1) auto
  with a show ?thesis
    by (cases r1) (simp_all add: getUserFiles_def is_upload_def)
qed

lemma fetchFiles_uploads:
  "filter is_upload (trace (snd (fetchFiles v w))) = filter is_upload (trace w)"
  using getUserFiles_uploads [of "id_uid (the (currentUser v))" w]
  by (auto simp: fetchFiles_def Let_def split: option.splits prod.splits)

lemma handleFileUpload_uploads:
  "currentUser v = Some user \<Longrightarrow>
     filter is_upload (trace (snd (handleFileUpload (Some (f # rest)) v w))) =
       filter is_upload (trace w) @ [UploadBytes (storage_path (id_uid user) f)]"
  using uploadUserFile_uploads [of f "id_uid user" w]
    fetchFiles_uploads [of "v\<lparr>uploading := True, error := None\<rparr>"
      "snd (uploadUserFile f (id_uid user) w)"]
  by (auto simp: handleFileUpload_def Let_def split: prod.splits option.splits)

text \<open>
  Claim C10. The handler does nothing, to the page or to the platform, when the
  selection is \<^verbatim>\<open>null\<close> or empty or when no user is signed in. Otherwise only the first
  file of the selection counts: the handler behaves as if that file alone had been
  selected, and the one object write it issues is that file's. In every case the handler
  issues at most one object write.
\<close>

theorem handleFileUpload_first_file_only:
  "handleFileUpload None v w = (v, w) \<and>
   handleFileUpload (Some []) v w = (v, w) \<and>
   (currentUser v = None \<longrightarrow> handleFileUpload target_files v w = (v, w)) \<and>
   handleFileUpload (Some (f # rest)) v w = handleFileUpload (Some [f]) v w \<and>
   (currentUser v = Some user \<longrightarrow>
      filter is_upload (trace (snd (handleFileUpload (Some (f # rest)) v w))) =
        filter is_upload (trace w) @ [UploadBytes (storage_path (id_uid user) f)]) \<and>
   length (filter is_upload (trace (snd (handleFileUpload target_files v w)))) \<le>
     Suc (length (filter is_upload (trace w)))"
proof (intro conjI impI)
  show "handleFileUpload None v w = (v, w)" by (simp add: handleFileUpload_def)
  show "handleFileUpload (Some []) v w = (v, w)" by (simp add: handleFileUpload_def)
  show "handleFileUpload (Some (f # rest)) v w = handleFileUpload (Some [f]) v w"
    by (simp add: handleFileUpload_def)
  show "length (filter is_upload (trace (snd (handleFileUpload target_files v w)))) \<le>
     Suc (length (filter is_upload (trace w)))"
  proof (cases "\<exists>g gs user. target_files = Some (g # gs) \<and> currentUser v = Some user")
    case True
    then obtain g gs user where "target_files = Some (g # gs)" "currentUser v = Some user"
      by blast
    with handleFileUpload_uploads [of v user g gs w] show ?thesis by simp
  next
    case False
    then have "handleFileUpload target_files v w = (v, w)"
      by (auto simp: handleFileUpload_def split: option.splits list.splits)
    then show ?thesis by simp
  qed
next
  assume "currentUser v = None"
  then show "handleFileUpload target_files v w = (v, w)"
    by (simp add: handleFileUpload_def split: option.splits list.splits)
next
  assume "currentUser v = Some user"
  then show "filter is_upload (trace (snd (handleFileUpload (Some (f # rest)) v w))) =
        filter is_upload (trace w) @ [UploadBytes (storage_path (id_uid user) f)]"
    by (rule handleFileUpload_uploads)
qed

text \<open>
  A selection of two files: with nobody signed in nothing happens; with Alice signed in
  her report is uploaded, the notes are not, and the refreshed list shows the report.
\<close>

theorem handleFileUpload_first_file_only_witness:
  "currentUser (page_for None) = None \<and>
   handleFileUpload (Some [report_pdf, notes_txt]) (page_for None) empty_world =
     (page_for None, empty_world) \<and>
   currentUser (page_for (Some alice)) = Some alice \<and>
   trace (snd (handleFileUpload (Some [report_pdf, notes_txt]) (page_for (Some alice)) empty_world)) =
     [UploadBytes ''user_uploads/alice/report.pdf'',
      GetDownloadURL ''user_uploads/alice/report.pdf'', AddDoc ''alice'', GetDocs ''alice''] \<and>
   map uf_name
     (files (fst (handleFileUpload (Some [report_pdf, notes_txt]) (page_for (Some alice)) empty_world))) =
     [''report.pdf'']"
proof -
  let ?h = "handleFileUpload (Some [report_pdf, notes_txt]) (page_for (Some alice)) empty_world"
  note ev = handleFileUpload_def fetchFiles_def getUserFiles_def uploadUserFile_def
    storage_path_def Let_def make_fileData_def with_id_def to_UserFile_def
    orderBy_createdAt_desc_def collection_def order_key_def sdk_defs sample_defs
    notes_txt_def page_for_def alice_def
  have n: "currentUser (page_for None) = None" by (simp add: page_for_def)
  have a: "currentUser (page_for (Some alice)) = Some alice" by (simp add: page_for_def)
  note r1 = handleFileUpload_first_file_only [THEN conjunct2, THEN conjunct2, THEN conjunct1,
      THEN mp, OF n]
  note r2 = handleFileUpload_first_file_only [THEN conjunct2, THEN conjunct2, THEN conjunct2,
      THEN conjunct2, THEN conjunct1, THEN mp, OF a]
  have t: "trace (snd ?h) =
     [UploadBytes ''user_uploads/alice/report.pdf'',
      GetDownloadURL ''user_uploads/alice/report.pdf'', AddDoc ''alice'', GetDocs ''alice'']"
    if "filter is_upload (trace (snd ?h)) =
          filter is_upload (trace empty_world) @ [UploadBytes (storage_path (id_uid alice) report_pdf)]"
    by (simp add: ev)
  have fs: "map uf_name (files (fst ?h)) = [''report.pdf'']" by (simp add: ev)
  from n a r1 [of "Some [report_pdf, notes_txt]" empty_world] t [OF r2] fs
  show ?thesis by simp
qed

section \<open>Registration and sign-in\<close>

text \<open>
  Claim C6. When the two passwords of the form differ, \<^verbatim>\<open>handleFirebaseRegister\<close> sets the
  message \<^verbatim>\<open>Passwords do not match\<close> and returns before its first call: the platform is
  left exactly as it was, so no call was issued and no identity and no profile were
  created.
\<close>

theorem register_password_mismatch:
  "password st \<noteq> repeatPassword st \<longrightarrow>
     handleFirebaseRegister st w = (st\<lparr>errorMsg := ''Passwords do not match''\<rparr>, w) \<and>
     trace (snd (handleFirebaseRegister st w)) = trace w \<and>
     identities (snd (handleFirebaseRegister st w)) = identities w \<and>
     profiles (snd (handleFirebaseRegister st w)) = profiles w"
  by (simp add: handleFirebaseRegister_def)

text \<open>Bob mistypes the repeated password on an empty platform.\<close>

theorem register_password_mismatch_witness:
  "password (register_form ''bob@example.com'' ''s3cret-pw'' ''s3cret-pv'') \<noteq>
     repeatPassword (register_form ''bob@example.com'' ''s3cret-pw'' ''s3cret-pv'') \<and>
   errorMsg (fst (handleFirebaseRegister
     (register_form ''bob@example.com'' ''s3cret-pw'' ''s3cret-pv'') empty_world)) =
     ''Passwords do not match'' \<and>
   snd (handleFirebaseRegister
     (register_form ''bob@example.com'' ''s3cret-pw'' ''s3cret-pv'') empty_world) = empty_world \<and>
   trace (snd (handleFirebaseRegister
     (register_form ''bob@example.com'' ''s3cret-pw'' ''s3cret-pv'') empty_world)) = []"
proof -
  have h: "password (register_form ''bob@example.com'' ''s3cret-pw'' ''s3cret-pv'') \<noteq>
     repeatPassword (register_form ''bob@example.com'' ''s3cret-pw'' ''s3cret-pv'')"
    by (simp add: register_form_def)
  from register_password_mismatch [THEN mp, OF h, of empty_world] h
  show ?thesis by (simp add: empty_world_def)
qed

text \<open>
  Claim C8. \<^verbatim>\<open>handleFirebaseLogin\<close> makes one call, the provider's sign-in, and what it
  leaves in the form follows the provider's answer. When the provider accepts, the message
  is empty and the account is the current user: the session. When the provider rejects
  with one of the codes \<^verbatim>\<open>auth/invalid-credential\<close>, \<^verbatim>\<open>auth/user-not-found\<close> and
  \<^verbatim>\<open>auth/wrong-password\<close>, the message is \<^verbatim>\<open>password or email incorrect\<close>. When it rejects
  with any other code, the message is the provider's own.
\<close>

theorem login_outcomes:
  "(signInWithEmailAndPassword (email st) (password st) w = (Inr user, w1) \<longrightarrow>
      handleFirebaseLogin st w = (st\<lparr>errorMsg := [], isProcessing := False\<rparr>, w1) \<and>
      current_user w1 = Some user) \<and>
   (signInWithEmailAndPassword (email st) (password st) w = (Inl e, w1) \<and>
    err_code e \<in> {''auth/invalid-credential'', ''auth/user-not-found'', ''auth/wrong-password''} \<longrightarrow>
      handleFirebaseLogin st w =
        (st\<lparr>errorMsg := ''password or email incorrect'', isProcessing := False\<rparr>, w1)) \<and>
   (signInWithEmailAndPassword (email st) (password st) w = (Inl e, w1) \<and>
    err_code e \<notin> {''auth/invalid-credential'', ''auth/user-not-found'', ''auth/wrong-password''} \<longrightarrow>
      handleFirebaseLogin st w = (st\<lparr>errorMsg := err_message e, isProcessing := False\<rparr>, w1))"
proof (intro conjI impI)
  assume a: "signInWithEmailAndPassword (email st) (password st) w = (Inr user, w1)"
  then show "handleFirebaseLogin st w = (st\<lparr>errorMsg := [], isProcessing := False\<rparr>, w1)"
    by (simp add: handleFirebaseLogin_def)
  from a show "current_user w1 = Some user"
    by (auto simp: signInWithEmailAndPassword_def sdk_call_def
        split: list.splits option.splits if_splits)
next
  assume "signInWithEmailAndPassword (email st) (password st) w = (Inl e, w1) \<and>
    err_code e \<in> {''auth/invalid-credential'', ''auth/user-not-found'', ''auth/wrong-password''}"
  then show "handleFirebaseLogin st w =
        (st\<lparr>errorMsg := ''password or email incorrect'', isProcessing := False\<rparr>, w1)"
    by (auto simp: handleFirebaseLogin_def)
next
  assume "signInWithEmailAndPassword (email st) (password st) w = (Inl e, w1) \<and>
    err_code e \<notin> {''auth/invalid-credential'', ''auth/user-not-found'', ''auth/wrong-password''}"
  then show "handleFirebaseLogin st w = (st\<lparr>errorMsg := err_message e, isProcessing := False\<rparr>, w1)"
    by (auto simp: handleFirebaseLogin_def)
qed

text \<open>
  Alice signs in with her password, with a wrong password, and with her password while
  the network is down.
\<close>

theorem login_outcomes_witness:
  "fst (signInWithEmailAndPassword ''alice@example.com'' ''hunter22'' auth_world) = Inr alice \<and>
   errorMsg (fst (handleFirebaseLogin (login_form ''alice@example.com'' ''hunter22'') auth_world)) = [] \<and>
   current_user (snd (handleFirebaseLogin (login_form ''alice@example.com'' ''hunter22'') auth_world)) =
     Some alice \<and>
   fst (signInWithEmailAndPassword ''alice@example.com'' ''hunter23'' auth_world) =
     Inl (auth_error ''auth/invalid-credential'') \<and>
   errorMsg (fst (handleFirebaseLogin (login_form ''alice@example.com'' ''hunter23'') auth_world)) =
     ''password or email incorrect'' \<and>
   fst (signInWithEmailAndPassword ''alice@example.com'' ''hunter22''
         (auth_world\<lparr>faults := [Some network_error]\<rparr>)) = Inl network_error \<and>
   errorMsg (fst (handleFirebaseLogin (login_form ''alice@example.com'' ''hunter22'')
         (auth_world\<lparr>faults := [Some network_error]\<rparr>))) = ''Network request failed''"
proof -
  let ?ok = "login_form ''alice@example.com'' ''hunter22''"
  let ?bad = "login_form ''alice@example.com'' ''hunter23''"
  let ?down = "auth_world\<lparr>faults := [Some network_error]\<rparr>"
  let ?s1 = "signInWithEmailAndPassword (email ?ok) (password ?ok) auth_world"
  let ?s2 = "signInWithEmailAndPassword (email ?bad) (password ?bad) auth_world"
  let ?s3 = "signInWithEmailAndPassword (email ?ok) (password ?ok) ?down"
  note ev = signInWithEmailAndPassword_def sdk_call_def auth_world_def empty_world_def
    alice_def login_form_def network_error_def auth_error_def
  have f1: "fst ?s1 = Inr alice" by (simp add: ev)
  have f2: "fst ?s2 = Inl (auth_error ''auth/invalid-credential'')" by (simp add: ev)
  have f3: "fst ?s3 = Inl network_error" by (simp add: ev)
  have a: "?s1 = (Inr alice, snd ?s1)" using f1 by (simp add: prod_eq_iff)
  have b: "?s2 = (Inl (auth_error ''auth/invalid-credential''), snd ?s2) \<and>
           err_code (auth_error ''auth/invalid-credential'') \<in>
             {''auth/invalid-credential'', ''auth/user-not-found'', ''auth/wrong-password''}"
    using f2 by (simp add: prod_eq_iff auth_error_def)
  have c: "?s3 = (Inl network_error, snd ?s3) \<and>
           err_code network_error \<notin>
             {''auth/invalid-credential'', ''auth/user-not-found'', ''auth/wrong-password''}"
    using f3 by (simp add: prod_eq_iff network_error_def)
  note r1 = login_outcomes [THEN conjunct1, THEN mp, OF a]
  note r2 = login_outcomes [THEN conjunct2, THEN conjunct1, THEN mp, OF b]
  note r3 = login_outcomes [THEN conjunct2, THEN conjunct2, THEN mp, OF c]
  have e: "email ?ok = ''alice@example.com''" "password ?ok = ''hunter22''"
    "email ?bad = ''alice@example.com''" "password ?bad = ''hunter23''"
    by (simp_all add: login_form_def)
  from r1 r2 r3 f1 f2 f3 show ?thesis
    by (simp add: e network_error_def)
qed

end
